theory Spec2Isabelle
  imports Complex_Main
begin

section \<open>Python values and the libraries the dashboard calls\<close>

text \<open>
  The dashboard (\<^verbatim>\<open>medguard_dashboard.py\<close>, class \<^verbatim>\<open>MedGuardDashboard\<close>) keeps a
  dictionary \<^verbatim>\<open>self.datasets\<close> from file stems to objects of xarray, geopandas and
  pandas. Those libraries are not part of the repository: their objects are values of an
  opaque type \<open>'o\<close>, and every call into them is a field of the record \<open>lib\<close>, so each
  statement below holds for whatever the libraries compute.

  An exception is a value: a call that may raise returns \<open>exn + 'a\<close>, with \<open>Inl\<close> for the
  exception raised.
\<close>

datatype exn = PyExn string

text \<open>A Python float, with the three values that are not real numbers.\<close>

datatype pyfloat = Finite real | PosInf | NegInf | NaN

text \<open>\<^verbatim>\<open>x > c\<close> for a float \<open>x\<close> and a finite literal \<open>c\<close>; every comparison with NaN is false.\<close>

fun float_gt :: "pyfloat \<Rightarrow> real \<Rightarrow> bool" where
  "float_gt (Finite x) c = (c < x)"
| "float_gt PosInf c = True"
| "float_gt NegInf c = False"
| "float_gt NaN c = False"

text \<open>
  The class of a loaded object: \<^verbatim>\<open>xr.Dataset\<close>, \<^verbatim>\<open>xr.DataArray\<close>, \<^verbatim>\<open>gpd.GeoDataFrame\<close> or
  \<^verbatim>\<open>pd.DataFrame\<close>, the results of the four readers \<^verbatim>\<open>load_data\<close> calls.
\<close>

datatype 'o dataset_value = Dataset 'o | DataArray 'o | GeoDataFrame 'o | DataFrame 'o

text \<open>
  The library calls of the loader and of the rendering code. A reader takes the name of a
  file of the data directory and returns the object or the exception.
  \<^item> \<open>float_mean v\<close> is \<^verbatim>\<open>float(v.mean())\<close>, \<open>py_len v\<close> is \<^verbatim>\<open>len(v)\<close>,
    \<open>quantile v q\<close> is \<^verbatim>\<open>v.quantile(q)\<close>;
  \<^item> \<open>risk_surface\<close>, \<open>mpa_map\<close>, \<open>socio_chart\<close>, \<open>habitat_map\<close> and \<open>density_map\<close> are the
    chart pipelines of the five \<^verbatim>\<open>create_*\<close> methods after their presence check;
  \<^item> \<open>risk_shares v\<close> is the triple \<^verbatim>\<open>(low_pct, med_pct, high_pct)\<close> of the risk tab,
    \<open>suspect_table\<close> the styled column selection of the illegal-fishing tab, and
    \<open>size_text\<close> the size column of the data explorer.
\<close>

record 'o lib =
  open_dataset :: "string \<Rightarrow> exn + 'o"
  open_dataarray :: "string \<Rightarrow> exn + 'o"
  read_file :: "string \<Rightarrow> exn + 'o"
  read_csv :: "string \<Rightarrow> exn + 'o"
  float_mean :: "'o dataset_value \<Rightarrow> exn + pyfloat"
  py_len :: "'o dataset_value \<Rightarrow> exn + nat"
  quantile :: "'o dataset_value \<Rightarrow> real \<Rightarrow> exn + 'o"
  risk_surface :: "'o dataset_value \<Rightarrow> exn + 'o"
  mpa_map :: "'o dataset_value \<Rightarrow> exn + 'o"
  socio_chart :: "'o dataset_value \<Rightarrow> exn + 'o"
  habitat_map :: "'o dataset_value \<Rightarrow> exn + 'o"
  density_map :: "'o dataset_value \<Rightarrow> 'o \<Rightarrow> exn + 'o"
  risk_shares :: "'o dataset_value \<Rightarrow> exn + (pyfloat \<times> pyfloat \<times> pyfloat)"
  suspect_table :: "'o dataset_value \<Rightarrow> exn + 'o"
  size_text :: "'o dataset_value \<Rightarrow> exn + string"

section \<open>Paths: \<^verbatim>\<open>Path.exists\<close>, \<^verbatim>\<open>Path.glob\<close> and \<^verbatim>\<open>Path.stem\<close>\<close>

text \<open>
  A file system maps a directory path to the names of its entries, in listing order, and
  to \<open>None\<close> when the path does not exist. A file of the data directory is identified by
  its name, and the three loops of one load read the same listing: the directory does not
  change while it is loaded.
\<close>

type_synonym filesystem = "string \<Rightarrow> string list option"

text \<open>
  \<^verbatim>\<open>glob('*' + ext)\<close> keeps, in listing order, the names that end with \<open>ext\<close>
  (the star matches any run of characters, the empty one included, and names that start
  with a dot are matched like the others; matching is case-sensitive, as on POSIX).
\<close>

definition fnmatch_star :: "string \<Rightarrow> string \<Rightarrow> bool" where
  "fnmatch_star ext n = (length ext \<le> length n \<and> drop (length n - length ext) n = ext)"

definition glob :: "string \<Rightarrow> string list \<Rightarrow> string list" where
  "glob ext ns = filter (fnmatch_star ext) ns"

text \<open>\<^verbatim>\<open>name.rfind('.')\<close>: the index of the last dot, \<open>None\<close> for Python's \<open>-1\<close>.\<close>

fun rfind_dot :: "string \<Rightarrow> nat option" where
  "rfind_dot [] = None"
| "rfind_dot (c # cs) =
     (case rfind_dot cs of
        Some i \<Rightarrow> Some (Suc i)
      | None \<Rightarrow> (if c = CHR ''.'' then Some 0 else None))"

text \<open>
  \<^verbatim>\<open>PurePath.stem\<close>: the name up to its last dot, when that dot is neither the first nor
  the last character (\<^verbatim>\<open>0 < i < len(name) - 1\<close>); the whole name otherwise.
\<close>

definition stem :: "string \<Rightarrow> string" where
  "stem n =
     (case rfind_dot n of
        Some i \<Rightarrow> (if 0 < i \<and> i < length n - 1 then take i n else n)
      | None \<Rightarrow> n)"

section \<open>The dashboard object and \<^verbatim>\<open>load_data\<close>\<close>

text \<open>
  A Python dictionary keeps its keys in insertion order; \<^verbatim>\<open>d[k] = v\<close> replaces the value
  of a key that is present, in place, and appends the pair otherwise.
\<close>

type_synonym 'o registry = "(string \<times> 'o dataset_value) list"

primrec setitem :: "string \<Rightarrow> 'v \<Rightarrow> (string \<times> 'v) list \<Rightarrow> (string \<times> 'v) list" where
  "setitem k v [] = [(k, v)]"
| "setitem k v (p # ps) = (if fst p = k then (k, v) # ps else p # setitem k v ps)"

text \<open>\<^verbatim>\<open>k in d\<close> and \<^verbatim>\<open>d[k]\<close> (after the membership test) are \<open>map_of d k\<close>.\<close>

text \<open>
  The readers are the loader's only effects. \<open>calls\<close> records each call of a reader, in
  the order the calls are made, so that the order of the attempts can be stated.
\<close>

datatype reader = OpenDataset | OpenDataArray | ReadFile | ReadCsv

record 'o dashboard =
  data_dir :: string
  datasets :: "'o registry"
  calls :: "(reader \<times> string) list"

definition log_call :: "reader \<Rightarrow> string \<Rightarrow> 'o dashboard \<Rightarrow> 'o dashboard" where
  "log_call r f self = self\<lparr>calls := calls self @ [(r, f)]\<rparr>"

definition store :: "string \<Rightarrow> 'o dataset_value \<Rightarrow> 'o dashboard \<Rightarrow> 'o dashboard" where
  "store k v self = self\<lparr>datasets := setitem k v (datasets self)\<rparr>"

text \<open>
  A \<^verbatim>\<open>for\<close> loop whose body may raise: the first exception ends the loop and leaves it.
\<close>

fun for_each :: "('a \<Rightarrow> 's \<Rightarrow> exn + 's) \<Rightarrow> 'a list \<Rightarrow> 's \<Rightarrow> exn + 's" where
  "for_each body [] s = Inr s"
| "for_each body (x # xs) s =
     (case body x s of Inl e \<Rightarrow> Inl e | Inr s' \<Rightarrow> for_each body xs s')"

text \<open>
  The body of the first loop (lines 135-143): \<^verbatim>\<open>xr.open_dataset\<close> in a \<^verbatim>\<open>try\<close>; its bare
  \<^verbatim>\<open>except:\<close> holds a second \<^verbatim>\<open>try\<close> with \<^verbatim>\<open>xr.open_dataarray\<close>, whose bare \<^verbatim>\<open>except:\<close> is
  \<^verbatim>\<open>pass\<close>. A bare \<^verbatim>\<open>except:\<close> catches every exception. The assignment to the dictionary
  follows the reader inside the same \<^verbatim>\<open>try\<close> and cannot raise.
\<close>

definition load_nc :: "'o lib \<Rightarrow> string \<Rightarrow> 'o dashboard \<Rightarrow> exn + 'o dashboard" where
  "load_nc L f self =
     (let self1 = log_call OpenDataset f self in
      case open_dataset L f of
        Inr data \<Rightarrow> Inr (store (stem f) (Dataset data) self1)
      | Inl _ \<Rightarrow>
          (let self2 = log_call OpenDataArray f self1 in
           case open_dataarray L f of
             Inr data \<Rightarrow> Inr (store (stem f) (DataArray data) self2)
           | Inl _ \<Rightarrow> Inr self2))"

text \<open>The bodies of the second and third loop (lines 147-150 and 153-156).\<close>

definition load_geojson :: "'o lib \<Rightarrow> string \<Rightarrow> 'o dashboard \<Rightarrow> exn + 'o dashboard" where
  "load_geojson L f self =
     (let self1 = log_call ReadFile f self in
      case read_file L f of
        Inr data \<Rightarrow> Inr (store (stem f) (GeoDataFrame data) self1)
      | Inl _ \<Rightarrow> Inr self1)"

definition load_csv :: "'o lib \<Rightarrow> string \<Rightarrow> 'o dashboard \<Rightarrow> exn + 'o dashboard" where
  "load_csv L f self =
     (let self1 = log_call ReadCsv f self in
      case read_csv L f of
        Inr data \<Rightarrow> Inr (store (stem f) (DataFrame data) self1)
      | Inl _ \<Rightarrow> Inr self1)"

text \<open>
  \<^verbatim>\<open>load_data\<close> (lines 128-156): the dictionary is reset, and when the data directory
  exists the three loops run one after the other over \<^verbatim>\<open>*.nc\<close>, \<^verbatim>\<open>*.geojson\<close> and
  \<^verbatim>\<open>*.csv\<close>.
\<close>

definition load_data :: "filesystem \<Rightarrow> 'o lib \<Rightarrow> 'o dashboard \<Rightarrow> exn + 'o dashboard" where
  "load_data fs L self =
     (let self0 = self\<lparr>datasets := []\<rparr> in
      case fs (data_dir self0) of
        None \<Rightarrow> Inr self0
      | Some ns \<Rightarrow>
          (case for_each (load_nc L) (glob ''.nc'' ns) self0 of
             Inl e \<Rightarrow> Inl e
           | Inr self1 \<Rightarrow>
               (case for_each (load_geojson L) (glob ''.geojson'' ns) self1 of
                  Inl e \<Rightarrow> Inl e
                | Inr self2 \<Rightarrow> for_each (load_csv L) (glob ''.csv'' ns) self2)))"

text \<open>
  \<^verbatim>\<open>__init__\<close> (lines 124-126): the data directory is \<^verbatim>\<open>Path('processed')\<close>, then
  \<^verbatim>\<open>load_data\<close> runs. \<open>new_dashboard\<close> is the object before that call, with no reader
  called yet.
\<close>

definition new_dashboard :: "'o dashboard" where
  "new_dashboard = \<lparr>data_dir = ''processed'', datasets = [], calls = []\<rparr>"

definition init :: "filesystem \<Rightarrow> 'o lib \<Rightarrow> exn + 'o dashboard" where
  "init fs L = load_data fs L new_dashboard"

section \<open>Rendering: what the page shows for a registry\<close>

text \<open>
  A Streamlit call that puts something on the page is a \<open>widget\<close>. Static page furniture
  (headers, explanatory markdown, the sidebar and the two metrics computed from its
  slider, the download buttons, the footer) does not read \<^verbatim>\<open>self.datasets\<close> and is left
  out; pictographs in the texts are written as words, and the one multi-line notice is cut
  to its heading. An f-string field is a \<open>shown\<close> value: \<open>ShownFloat d x\<close> is \<^verbatim>\<open>{x:.df}\<close> and
  \<open>ShownCount n\<close> is \<^verbatim>\<open>{n}\<close> for an integer.
  \<^item> \<open>MetricCard title icon v caption\<close>: the \<^verbatim>\<open>metric-card\<close> block of \<^verbatim>\<open>st.markdown\<close>;
  \<^item> \<open>Metric label v delta\<close>: \<^verbatim>\<open>st.metric\<close>;
  \<^item> \<open>Info\<close>, \<open>Success\<close>, \<open>Warning\<close>, \<open>ErrorBox\<close>: \<^verbatim>\<open>st.info\<close>, \<^verbatim>\<open>st.success\<close>, \<^verbatim>\<open>st.warning\<close>,
    \<^verbatim>\<open>st.error\<close>; \<open>CountWarning n t\<close> is \<^verbatim>\<open>st.warning\<close> of a text that starts with \<^verbatim>\<open>{n}\<close>;
  \<^item> \<open>PlotlyChart\<close>, \<open>FoliumMap\<close>, \<open>DataFrameView\<close>: \<^verbatim>\<open>st.plotly_chart\<close>, \<^verbatim>\<open>st_folium\<close>,
    \<^verbatim>\<open>st.dataframe\<close> of a library object; \<open>InfoTable\<close>: \<^verbatim>\<open>st.dataframe\<close> of the explorer's rows;
  \<^item> \<open>Progress label pct\<close>: \<^verbatim>\<open>st.progress(pct/100, text=...)\<close>.
\<close>

datatype shown = ShownFloat nat pyfloat | ShownCount nat | ShownText string

datatype 'o widget =
    MetricCard string string shown string
  | Metric string string string
  | Info string
  | Success string
  | Warning string
  | CountWarning nat string
  | ErrorBox string
  | PlotlyChart 'o
  | FoliumMap 'o
  | DataFrameView 'o
  | InfoTable "(string \<times> string \<times> string) list"
  | Progress string pyfloat

subsection \<open>\<^verbatim>\<open>render_key_metrics\<close> (lines 181-259)\<close>

text \<open>
  The four \<^verbatim>\<open>with col:\<close> blocks, in order. The thresholds \<^verbatim>\<open>0.6\<close> and \<^verbatim>\<open>0.3\<close> are taken as the
  real numbers they denote.
\<close>

definition risk_metric :: "'o lib \<Rightarrow> 'o dashboard \<Rightarrow> exn + 'o widget" where
  "risk_metric L self =
     (case map_of (datasets self) ''overfishing_risk_index'' of
        Some risk_data \<Rightarrow>
          (case float_mean L risk_data of
             Inl e \<Rightarrow> Inl e
           | Inr mean_risk \<Rightarrow>
               (let risk_class =
                      (if float_gt mean_risk (6 / 10) then ''CRITICAL''
                       else if float_gt mean_risk (3 / 10) then ''WARNING'' else ''SAFE'');
                    risk_color =
                      (if float_gt mean_risk (6 / 10) then ''red circle''
                       else if float_gt mean_risk (3 / 10) then ''yellow circle''
                       else ''green circle'')
                in Inr (MetricCard ''Overfishing Risk Index'' risk_color
                          (ShownFloat 2 mean_risk) risk_class)))
      | None \<Rightarrow> Inr (Metric ''Risk Index'' ''Loading...'' []))"

definition habitat_metric :: "'o lib \<Rightarrow> 'o dashboard \<Rightarrow> exn + 'o widget" where
  "habitat_metric L self =
     (case map_of (datasets self) ''habitat_quality_index'' of
        Some habitat \<Rightarrow>
          (case float_mean L habitat of
             Inl e \<Rightarrow> Inl e
           | Inr quality \<Rightarrow>
               Inr (MetricCard ''Habitat Quality'' [] (ShownFloat 2 quality) ''OUT OF 1.0''))
      | None \<Rightarrow> Inr (Metric ''Habitat Quality'' ''N/A'' []))"

definition connectivity_metric :: "'o lib \<Rightarrow> 'o dashboard \<Rightarrow> exn + 'o widget" where
  "connectivity_metric L self =
     (case map_of (datasets self) ''larval_connectivity'' of
        Some connectivity \<Rightarrow>
          (case float_mean L connectivity of
             Inl e \<Rightarrow> Inl e
           | Inr conn_score \<Rightarrow>
               Inr (MetricCard ''Larval Connectivity'' [] (ShownFloat 3 conn_score)
                      ''NETWORK STRENGTH''))
      | None \<Rightarrow> Inr (Metric ''Connectivity'' ''N/A'' []))"

definition alerts_metric :: "'o lib \<Rightarrow> 'o dashboard \<Rightarrow> exn + 'o widget" where
  "alerts_metric L self =
     (case map_of (datasets self) ''illegal_fishing_suspects'' of
        Some data \<Rightarrow>
          (case py_len L data of
             Inl e \<Rightarrow> Inl e
           | Inr suspects \<Rightarrow>
               Inr (MetricCard ''Illegal Activity Alerts'' ''warning sign''
                      (ShownCount suspects) ''VESSELS FLAGGED''))
      | None \<Rightarrow>
          Inr (MetricCard ''Illegal Activity Alerts'' ''check mark'' (ShownText ''0'')
                 ''ALL CLEAR''))"

text \<open>Statements in sequence: an exception of the first skips the second.\<close>

definition and_then :: "exn + 'a \<Rightarrow> ('a \<Rightarrow> exn + 'b) \<Rightarrow> exn + 'b" where
  "and_then r k = (case r of Inl e \<Rightarrow> Inl e | Inr x \<Rightarrow> k x)"

definition render_key_metrics :: "'o lib \<Rightarrow> 'o dashboard \<Rightarrow> exn + 'o widget list" where
  "render_key_metrics L self =
     and_then (risk_metric L self) (\<lambda>w1.
     and_then (habitat_metric L self) (\<lambda>w2.
     and_then (connectivity_metric L self) (\<lambda>w3.
     and_then (alerts_metric L self) (\<lambda>w4. Inr [w1, w2, w3, w4]))))"

subsection \<open>The chart builders: \<^verbatim>\<open>None\<close> when the dataset is missing\<close>

text \<open>
  Each \<^verbatim>\<open>create_*\<close> method starts with \<^verbatim>\<open>if key not in self.datasets: return None\<close> and
  otherwise hands the dataset to its chart pipeline (\<^verbatim>\<open>create_connectivity_network\<close> takes
  the 0.8 quantile first).
\<close>

definition create_risk_map_3d :: "'o lib \<Rightarrow> 'o dashboard \<Rightarrow> exn + 'o option" where
  "create_risk_map_3d L self =
     (case map_of (datasets self) ''overfishing_risk_index'' of
        None \<Rightarrow> Inr None
      | Some risk_data \<Rightarrow> and_then (risk_surface L risk_data) (\<lambda>fig. Inr (Some fig)))"

definition create_mpa_optimization_map :: "'o lib \<Rightarrow> 'o dashboard \<Rightarrow> exn + 'o option" where
  "create_mpa_optimization_map L self =
     (case map_of (datasets self) ''recommended_mpa_locations'' of
        None \<Rightarrow> Inr None
      | Some recommended \<Rightarrow> and_then (mpa_map L recommended) (\<lambda>m. Inr (Some m)))"

definition create_socioeconomic_impact_chart :: "'o lib \<Rightarrow> 'o dashboard \<Rightarrow> exn + 'o option" where
  "create_socioeconomic_impact_chart L self =
     (case map_of (datasets self) ''socioeconomic_scenarios'' of
        None \<Rightarrow> Inr None
      | Some df \<Rightarrow> and_then (socio_chart L df) (\<lambda>fig. Inr (Some fig)))"

definition create_habitat_quality_animation :: "'o lib \<Rightarrow> 'o dashboard \<Rightarrow> exn + 'o option" where
  "create_habitat_quality_animation L self =
     (case map_of (datasets self) ''habitat_quality_index'' of
        None \<Rightarrow> Inr None
      | Some habitat \<Rightarrow> and_then (habitat_map L habitat) (\<lambda>fig. Inr (Some fig)))"

definition create_connectivity_network :: "'o lib \<Rightarrow> 'o dashboard \<Rightarrow> exn + 'o option" where
  "create_connectivity_network L self =
     (case map_of (datasets self) ''larval_connectivity'' of
        None \<Rightarrow> Inr None
      | Some connectivity \<Rightarrow>
          and_then (quantile L connectivity (8 / 10)) (\<lambda>threshold.
          and_then (density_map L connectivity threshold) (\<lambda>fig. Inr (Some fig))))"

subsection \<open>The tabs of \<^verbatim>\<open>run\<close> (lines 587-854)\<close>

text \<open>
  \<^verbatim>\<open>if fig: st.plotly_chart(fig) else: st.info(text)\<close>: a figure object is truthy, \<^verbatim>\<open>None\<close>
  is not.
\<close>

definition chart_or_info :: "('o \<Rightarrow> 'o widget) \<Rightarrow> string \<Rightarrow> 'o option \<Rightarrow> 'o widget" where
  "chart_or_info display text fig = (case fig of Some f \<Rightarrow> display f | None \<Rightarrow> Info text)"

text \<open>
  The risk tab: the 3D chart or its notice, then the status column, which has no
  \<^verbatim>\<open>else\<close> branch.
\<close>

definition risk_status :: "'o lib \<Rightarrow> 'o dashboard \<Rightarrow> exn + 'o widget list" where
  "risk_status L self =
     (case map_of (datasets self) ''overfishing_risk_index'' of
        None \<Rightarrow> Inr []
      | Some risk_data \<Rightarrow>
          and_then (risk_shares L risk_data) (\<lambda>(low_pct, med_pct, high_pct).
            Inr [Progress ''Low Risk'' low_pct, Progress ''Medium Risk'' med_pct,
                 Progress ''High Risk'' high_pct,
                 (if float_gt high_pct 30
                  then ErrorBox ''ALERT: High-risk areas exceed 30% threshold!''
                  else if float_gt high_pct 15
                  then Warning ''WARNING: Monitor high-risk areas closely''
                  else Success ''Risk levels within acceptable range'')]))"

definition risk_tab :: "'o lib \<Rightarrow> 'o dashboard \<Rightarrow> exn + 'o widget list" where
  "risk_tab L self =
     and_then (create_risk_map_3d L self) (\<lambda>fig_3d.
     and_then (risk_status L self) (\<lambda>status.
       Inr (chart_or_info PlotlyChart
              ''Risk data is being processed. Please run the processing pipeline first.''
              fig_3d # status)))"

definition connectivity_tab :: "'o lib \<Rightarrow> 'o dashboard \<Rightarrow> exn + 'o widget list" where
  "connectivity_tab L self =
     and_then (create_connectivity_network L self) (\<lambda>fig_conn.
     and_then (create_habitat_quality_animation L self) (\<lambda>fig_habitat.
       Inr [chart_or_info PlotlyChart ''Connectivity analysis in progress...'' fig_conn,
            chart_or_info PlotlyChart ''Habitat analysis in progress...'' fig_habitat]))"

definition illegal_tab :: "'o lib \<Rightarrow> 'o dashboard \<Rightarrow> exn + 'o widget list" where
  "illegal_tab L self =
     (case map_of (datasets self) ''illegal_fishing_suspects'' of
        Some suspects \<Rightarrow>
          and_then (py_len L suspects) (\<lambda>n.
          and_then (suspect_table L suspects) (\<lambda>t.
            Inr [CountWarning n ''suspicious clusters detected'', DataFrameView t]))
      | None \<Rightarrow>
          Inr [Success ''All Clear: No suspicious patterns detected in current period'',
               Info ''How the system works''])"

definition mpa_tab :: "'o lib \<Rightarrow> 'o dashboard \<Rightarrow> exn + 'o widget list" where
  "mpa_tab L self =
     and_then (create_mpa_optimization_map L self) (\<lambda>mpa_map.
       Inr [chart_or_info FoliumMap ''MPA optimization map loading...'' mpa_map])"

definition socio_tab :: "'o lib \<Rightarrow> 'o dashboard \<Rightarrow> exn + 'o widget list" where
  "socio_tab L self =
     and_then (create_socioeconomic_impact_chart L self) (\<lambda>fig_econ.
       Inr [chart_or_info PlotlyChart ''Socioeconomic analysis loading...'' fig_econ])"

text \<open>
  The data explorer: one row per entry, in the dictionary's order, the type column from
  the \<^verbatim>\<open>isinstance\<close> chain of lines 805-816; a notice when the dictionary is empty.
\<close>

fun dtype :: "'o dataset_value \<Rightarrow> string" where
  "dtype (Dataset _) = ''NetCDF (Gridded)''"
| "dtype (DataArray _) = ''NetCDF (Array)''"
| "dtype (GeoDataFrame _) = ''GeoJSON (Vector)''"
| "dtype (DataFrame _) = ''CSV (Tabular)''"

fun dataset_info :: "'o lib \<Rightarrow> 'o registry \<Rightarrow> exn + (string \<times> string \<times> string) list" where
  "dataset_info L [] = Inr []"
| "dataset_info L ((name, data) # rest) =
     and_then (size_text L data) (\<lambda>size.
     and_then (dataset_info L rest) (\<lambda>rows. Inr ((name, dtype data, size) # rows)))"

definition explorer_tab :: "'o lib \<Rightarrow> 'o dashboard \<Rightarrow> exn + 'o widget list" where
  "explorer_tab L self =
     (if datasets self \<noteq> []
      then and_then (dataset_info L (datasets self)) (\<lambda>rows. Inr [InfoTable rows])
      else Inr [Warning ''No processed data found. Run the processing pipeline first.''])"

text \<open>\<^verbatim>\<open>run\<close>: the key metrics, then the six tabs.\<close>

definition run :: "'o lib \<Rightarrow> 'o dashboard \<Rightarrow> exn + 'o widget list" where
  "run L self =
     and_then (render_key_metrics L self) (\<lambda>metrics.
     and_then (risk_tab L self) (\<lambda>t1.
     and_then (connectivity_tab L self) (\<lambda>t2.
     and_then (illegal_tab L self) (\<lambda>t3.
     and_then (mpa_tab L self) (\<lambda>t4.
     and_then (socio_tab L self) (\<lambda>t5.
     and_then (explorer_tab L self) (\<lambda>t6.
       Inr (metrics @ t1 @ t2 @ t3 @ t4 @ t5 @ t6))))))))"

section \<open>What a file contributes, and what the loops add up to\<close>

text \<open>
  The functions of this section are not in the source. They say, in the words of the
  specification, what one file contributes and which file wins a key; the lemmas below
  prove that \<^verbatim>\<open>load_data\<close> computes exactly that.

  \<open>nc_result\<close>, \<open>geojson_result\<close> and \<open>csv_result\<close>: the dataset a file of each extension
  group parses to, \<open>None\<close> when every reader tried on it raises. \<open>file_result\<close> picks the
  group from the name; a name of no recognized extension contributes nothing.
\<close>

definition nc_result :: "'o lib \<Rightarrow> string \<Rightarrow> 'o dataset_value option" where
  "nc_result L f =
     (case open_dataset L f of
        Inr data \<Rightarrow> Some (Dataset data)
      | Inl _ \<Rightarrow> (case open_dataarray L f of Inr data \<Rightarrow> Some (DataArray data) | Inl _ \<Rightarrow> None))"

definition geojson_result :: "'o lib \<Rightarrow> string \<Rightarrow> 'o dataset_value option" where
  "geojson_result L f = (case read_file L f of Inr data \<Rightarrow> Some (GeoDataFrame data) | Inl _ \<Rightarrow> None)"

definition csv_result :: "'o lib \<Rightarrow> string \<Rightarrow> 'o dataset_value option" where
  "csv_result L f = (case read_csv L f of Inr data \<Rightarrow> Some (DataFrame data) | Inl _ \<Rightarrow> None)"

definition recognized :: "string \<Rightarrow> bool" where
  "recognized n = (fnmatch_star ''.nc'' n \<or> fnmatch_star ''.geojson'' n \<or> fnmatch_star ''.csv'' n)"


definition file_result :: "'o lib \<Rightarrow> string \<Rightarrow> 'o dataset_value option" where
  "file_result L f =
     (if fnmatch_star ''.nc'' f then nc_result L f
      else if fnmatch_star ''.geojson'' f then geojson_result L f
      else if fnmatch_star ''.csv'' f then csv_result L f
      else None)"

text \<open>The reader calls one \<^verbatim>\<open>.nc\<close> file causes, in order.\<close>

definition nc_calls :: "'o lib \<Rightarrow> string \<Rightarrow> (reader \<times> string) list" where
  "nc_calls L f =
     (case open_dataset L f of
        Inr _ \<Rightarrow> [(OpenDataset, f)]
      | Inl _ \<Rightarrow> [(OpenDataset, f), (OpenDataArray, f)])"

text \<open>
  \<open>store_all val fs d\<close>: the dictionary \<open>d\<close> after the files \<open>fs\<close>, in order, have each stored
  what they parse to under their stem. \<open>last_loaded val fs k\<close>: the value of the last file
  of \<open>fs\<close> with stem \<open>k\<close> that parses.
\<close>

fun store_all :: "(string \<Rightarrow> 'v option) \<Rightarrow> string list \<Rightarrow> (string \<times> 'v) list \<Rightarrow> (string \<times> 'v) list" where
  "store_all val [] d = d"
| "store_all val (f # fs) d =
     store_all val fs (case val f of Some v \<Rightarrow> setitem (stem f) v d | None \<Rightarrow> d)"

fun last_loaded :: "(string \<Rightarrow> 'v option) \<Rightarrow> string list \<Rightarrow> string \<Rightarrow> 'v option" where
  "last_loaded val [] k = None"
| "last_loaded val (f # fs) k =
     (case last_loaded val fs k of
        Some v \<Rightarrow> Some v
      | None \<Rightarrow> (if stem f = k then val f else None))"

text \<open>The class tests of the data explorer, one per variant.\<close>

fun is_dataset :: "'o dataset_value \<Rightarrow> bool" where
  "is_dataset (Dataset _) = True" | "is_dataset _ = False"

fun is_dataarray :: "'o dataset_value \<Rightarrow> bool" where
  "is_dataarray (DataArray _) = True" | "is_dataarray _ = False"

fun is_geodataframe :: "'o dataset_value \<Rightarrow> bool" where
  "is_geodataframe (GeoDataFrame _) = True" | "is_geodataframe _ = False"

fun is_dataframe :: "'o dataset_value \<Rightarrow> bool" where
  "is_dataframe (DataFrame _) = True" | "is_dataframe _ = False"

definition variants :: "'o dataset_value \<Rightarrow> bool list" where
  "variants v = [is_dataset v, is_dataarray v, is_geodataframe v, is_dataframe v]"


section \<open>An example data directory\<close>

text \<open>
  A directory with a dataset-only grid, a grid that only \<^verbatim>\<open>open_dataarray\<close> reads, a
  corrupt grid, a vector file, two tables (one sharing its stem with a grid) and a file of
  no recognized extension; library objects are numbered. \<open>plain_listing\<close> is a second
  directory without the shared stem.
\<close>

definition demo_listing :: "string list" where
  "demo_listing =
     [''habitat_quality_index.nc'', ''overfishing_risk_index.nc'', ''broken.nc'',
      ''recommended_mpa_locations.geojson'', ''overfishing_risk_index.csv'',
      ''illegal_fishing_suspects.csv'', ''notes.txt'']"



definition dir_fs :: "string list \<Rightarrow> filesystem" where
  "dir_fs ns d = (if d = ''processed'' then Some ns else None)"

definition demo_lib :: "nat lib" where
  "demo_lib =
     \<lparr>open_dataset = (\<lambda>f. if f = ''habitat_quality_index.nc'' then Inr 1 else Inl (PyExn ''ValueError'')),
      open_dataarray = (\<lambda>f. if f = ''overfishing_risk_index.nc'' then Inr 2 else Inl (PyExn ''ValueError'')),
      read_file = (\<lambda>f. if f = ''recommended_mpa_locations.geojson'' then Inr 3 else Inl (PyExn ''DriverError'')),
      read_csv = (\<lambda>f. if f = ''illegal_fishing_suspects.csv'' then Inr 4
                      else if f = ''overfishing_risk_index.csv'' then Inr 5
                      else Inl (PyExn ''ParserError'')),
      float_mean = (\<lambda>v. if v = DataArray 2 then Inr (Finite (8 / 10)) else Inl (PyExn ''TypeError'')),
      py_len = (\<lambda>v. if v = DataFrame 4 then Inr 3 else Inr 1),
      quantile = (\<lambda>v q. Inr 6),
      risk_surface = (\<lambda>v. Inr 7),
      mpa_map = (\<lambda>v. Inr 8),
      socio_chart = (\<lambda>v. Inr 9),
      habitat_map = (\<lambda>v. Inr 10),
      density_map = (\<lambda>v t. Inr 11),
      risk_shares = (\<lambda>v. Inr (Finite 0, Finite 0, Finite 100)),
      suspect_table = (\<lambda>v. Inr 12),
      size_text = (\<lambda>v. Inr ''3 rows'')\<rparr>"

text \<open>The registry and the reader calls after loading the example directory.\<close>

definition demo_loaded :: "nat dashboard" where
  "demo_loaded =
     \<lparr>data_dir = ''processed'',
          datasets =
            [(''habitat_quality_index'', Dataset 1),
             (''overfishing_risk_index'', DataFrame 5),
             (''recommended_mpa_locations'', GeoDataFrame 3),
             (''illegal_fishing_suspects'', DataFrame 4)],
          calls =
            [(OpenDataset, ''habitat_quality_index.nc''),
             (OpenDataset, ''overfishing_risk_index.nc''),
             (OpenDataArray, ''overfishing_risk_index.nc''),
             (OpenDataset, ''broken.nc''), (OpenDataArray, ''broken.nc''),
             (ReadFile, ''recommended_mpa_locations.geojson''),
             (ReadCsv, ''overfishing_risk_index.csv''),
             (ReadCsv, ''illegal_fishing_suspects.csv'')]\<rparr>"

section \<open>Dictionary assignment and the three loops\<close>

lemma map_of_setitem: "map_of (setitem k v d) = (map_of d)(k \<mapsto> v)"
  by (induction d) auto

lemma keys_setitem: "fst ` set (setitem k v d) = insert k (fst ` set d)"
  by (induction d) auto

lemma distinct_setitem: "distinct (map fst d) \<Longrightarrow> distinct (map fst (setitem k v d))"
proof (induction d)
  case Nil
  show ?case by simp
next
  case (Cons p ps)
  have "fst p \<noteq> k \<Longrightarrow> fst p \<notin> fst ` set (setitem k v ps)"
    using Cons.prems by (auto simp: keys_setitem)
  with Cons show ?case by auto
qed

lemma map_of_store_all:
  "map_of (store_all val fs d) k =
     (case last_loaded val fs k of Some v \<Rightarrow> Some v | None \<Rightarrow> map_of d k)"
  by (induction fs arbitrary: d) (auto simp: map_of_setitem split: option.splits)

lemma distinct_store_all:
  "distinct (map fst d) \<Longrightarrow> distinct (map fst (store_all val fs d))"
  by (induction fs arbitrary: d) (auto simp: distinct_setitem split: option.splits)

text \<open>Each loop returns normally, whatever the readers do.\<close>

lemma for_each_load_nc:
  "for_each (load_nc L) fs self =
     Inr (self\<lparr>datasets := store_all (nc_result L) fs (datasets self),
               calls := calls self @ concat (map (nc_calls L) fs)\<rparr>)"
  by (induction fs arbitrary: self)
     (auto simp: load_nc_def nc_result_def nc_calls_def log_call_def store_def Let_def
           split: sum.splits)

lemma for_each_load_geojson:
  "for_each (load_geojson L) fs self =
     Inr (self\<lparr>datasets := store_all (geojson_result L) fs (datasets self),
               calls := calls self @ map (Pair ReadFile) fs\<rparr>)"
  by (induction fs arbitrary: self)
     (auto simp: load_geojson_def geojson_result_def log_call_def store_def Let_def
           split: sum.splits)

lemma for_each_load_csv:
  "for_each (load_csv L) fs self =
     Inr (self\<lparr>datasets := store_all (csv_result L) fs (datasets self),
               calls := calls self @ map (Pair ReadCsv) fs\<rparr>)"
  by (induction fs arbitrary: self)
     (auto simp: load_csv_def csv_result_def log_call_def store_def Let_def
           split: sum.splits)

lemma load_data_eq:
  "load_data fs L self =
     Inr (case fs (data_dir self) of
            None \<Rightarrow> self\<lparr>datasets := []\<rparr>
          | Some ns \<Rightarrow>
              self\<lparr>datasets :=
                     store_all (csv_result L) (glob ''.csv'' ns)
                       (store_all (geojson_result L) (glob ''.geojson'' ns)
                         (store_all (nc_result L) (glob ''.nc'' ns) [])),
                   calls :=
                     calls self @ concat (map (nc_calls L) (glob ''.nc'' ns))
                       @ map (Pair ReadFile) (glob ''.geojson'' ns)
                       @ map (Pair ReadCsv) (glob ''.csv'' ns)\<rparr>)"
  by (simp add: load_data_def for_each_load_nc for_each_load_geojson for_each_load_csv
           split: option.splits)

lemma load_data_returns: "\<exists>self'. load_data fs L self = Inr self'"
  by (simp add: load_data_eq)

lemma load_data_data_dir: "load_data fs L self = Inr self' \<Longrightarrow> data_dir self' = data_dir self"
  by (auto simp: load_data_eq split: option.splits)

lemma load_data_lookup:
  assumes "fs (data_dir self) = Some ns" and "load_data fs L self = Inr self'"
  shows "map_of (datasets self') k =
     (case last_loaded (csv_result L) (glob ''.csv'' ns) k of
        Some v \<Rightarrow> Some v
      | None \<Rightarrow>
          (case last_loaded (geojson_result L) (glob ''.geojson'' ns) k of
             Some v \<Rightarrow> Some v
           | None \<Rightarrow> last_loaded (nc_result L) (glob ''.nc'' ns) k))"
  using assms by (auto simp: load_data_eq map_of_store_all split: option.splits)

lemma load_data_distinct:
  assumes "load_data fs L self = Inr self'"
  shows "distinct (map fst (datasets self'))"
  using assms by (auto simp: load_data_eq distinct_store_all split: option.splits)

section \<open>Names, extensions and stems\<close>

lemma fnmatch_star_iff: "fnmatch_star ext n \<longleftrightarrow> (\<exists>s. n = s @ ext)"
proof
  assume "fnmatch_star ext n"
  then have "n = take (length n - length ext) n @ ext"
    unfolding fnmatch_star_def by (metis append_take_drop_id)
  then show "\<exists>s. n = s @ ext" ..
next
  assume "\<exists>s. n = s @ ext"
  then show "fnmatch_star ext n" by (auto simp: fnmatch_star_def)
qed





lemma fnmatch_star_last: "fnmatch_star ext n \<Longrightarrow> ext \<noteq> [] \<Longrightarrow> last n = last ext"
  by (auto simp: fnmatch_star_iff)

lemma nc_not_geojson: "fnmatch_star ''.nc'' n \<Longrightarrow> \<not> fnmatch_star ''.geojson'' n"
  by (auto dest!: fnmatch_star_last)

lemma nc_not_csv: "fnmatch_star ''.nc'' n \<Longrightarrow> \<not> fnmatch_star ''.csv'' n"
  by (auto dest!: fnmatch_star_last)

lemma geojson_not_csv: "fnmatch_star ''.geojson'' n \<Longrightarrow> \<not> fnmatch_star ''.csv'' n"
  by (auto dest!: fnmatch_star_last)

lemma glob_empty: "\<forall>n\<in>set ns. \<not> fnmatch_star ext n \<Longrightarrow> glob ext ns = []"
  by (simp add: glob_def)

lemma set_glob: "set (glob ext ns) = {n \<in> set ns. fnmatch_star ext n}"
  by (simp add: glob_def)

lemma distinct_glob: "distinct ns \<Longrightarrow> distinct (glob ext ns)"
  by (simp add: glob_def)

lemma file_result_nc: "fnmatch_star ''.nc'' f \<Longrightarrow> file_result L f = nc_result L f"
  by (simp add: file_result_def)

lemma file_result_geojson: "fnmatch_star ''.geojson'' f \<Longrightarrow> file_result L f = geojson_result L f"
  using nc_not_geojson by (auto simp: file_result_def)

lemma file_result_csv: "fnmatch_star ''.csv'' f \<Longrightarrow> file_result L f = csv_result L f"
  using nc_not_csv geojson_not_csv by (auto simp: file_result_def)

lemma file_result_recognized: "file_result L f = Some v \<Longrightarrow> recognized f"
  by (auto simp: file_result_def recognized_def split: if_splits)

section \<open>Where an entry comes from\<close>

lemma last_loaded_SomeD:
  "last_loaded val fs k = Some v \<Longrightarrow> \<exists>f\<in>set fs. stem f = k \<and> val f = Some v"
  by (induction fs) (auto split: option.splits if_splits)

lemma last_loaded_None_iff:
  "last_loaded val fs k = None \<longleftrightarrow> (\<forall>f\<in>set fs. stem f = k \<longrightarrow> val f = None)"
  by (induction fs) (auto split: option.splits if_splits)


lemma load_data_provenance:
  assumes dir: "fs (data_dir self) = Some ns" and run: "load_data fs L self = Inr self'"
    and look: "map_of (datasets self') k = Some v"
  shows "\<exists>g\<in>set ns. stem g = k \<and> file_result L g = Some v"
proof -
  note eq = load_data_lookup [OF dir run, of k]
  consider (csv) "last_loaded (csv_result L) (glob ''.csv'' ns) k = Some v"
    | (geo) "last_loaded (geojson_result L) (glob ''.geojson'' ns) k = Some v"
    | (nc) "last_loaded (nc_result L) (glob ''.nc'' ns) k = Some v"
    using eq look by (auto split: option.splits)
  then show ?thesis
  proof cases
    case csv
    then obtain g where "g \<in> set (glob ''.csv'' ns)" "stem g = k" "csv_result L g = Some v"
      by (blast dest: last_loaded_SomeD)
    then show ?thesis by (auto simp: set_glob file_result_csv)
  next
    case geo
    then obtain g where "g \<in> set (glob ''.geojson'' ns)" "stem g = k" "geojson_result L g = Some v"
      by (blast dest: last_loaded_SomeD)
    then show ?thesis by (auto simp: set_glob file_result_geojson)
  next
    case nc
    then obtain g where "g \<in> set (glob ''.nc'' ns)" "stem g = k" "nc_result L g = Some v"
      by (blast dest: last_loaded_SomeD)
    then show ?thesis by (auto simp: set_glob file_result_nc)
  qed
qed




lemma filter_calls:
  assumes "distinct xs" and "f \<in> set xs" and "\<And>x c. c \<in> set (g x) \<Longrightarrow> snd c = x"
  shows "filter (\<lambda>c. snd c = f) (concat (map g xs)) = g f"
  using assms(1,2)
proof (induction xs)
  case Nil
  then show ?case by simp
next
  case (Cons x xs)
  have other: "filter (\<lambda>c. snd c = f) (g y) = []" if "y \<noteq> f" for y
    using that assms(3) by (auto simp: filter_empty_conv)
  have self: "filter (\<lambda>c. snd c = f) (g f) = g f"
    using assms(3) by (auto simp: filter_id_conv)
  have none: "f \<notin> set ys \<Longrightarrow> filter (\<lambda>c. snd c = f) (concat (map g ys)) = []" for ys
    using assms(3) by (auto simp: filter_empty_conv)
  show ?case
  proof (cases "x = f")
    case True
    with Cons.prems have "f \<notin> set xs" by simp
    with True self none show ?thesis by simp
  next
    case False
    with Cons have "filter (\<lambda>c. snd c = f) (concat (map g xs)) = g f" by simp
    with False other show ?thesis by simp
  qed
qed

lemma nc_calls_snd: "c \<in> set (nc_calls L x) \<Longrightarrow> snd c = x"
  by (auto simp: nc_calls_def split: sum.splits)

lemma filter_other_group: "f \<notin> set xs \<Longrightarrow> filter (\<lambda>c. snd c = f) (map (Pair r) xs) = []"
  by (auto simp: filter_empty_conv)

section \<open>The example, evaluated\<close>

lemma demo_stems:
  "map stem demo_listing =
     [''habitat_quality_index'', ''overfishing_risk_index'', ''broken'',
      ''recommended_mpa_locations'', ''overfishing_risk_index'',
      ''illegal_fishing_suspects'', ''notes'']"
  by (simp add: demo_listing_def stem_def)

lemma demo_results:
  "map (file_result demo_lib) demo_listing =
     [Some (Dataset 1), Some (DataArray 2), None, Some (GeoDataFrame 3), Some (DataFrame 5),
      Some (DataFrame 4), None]"
  by (simp add: demo_listing_def file_result_def fnmatch_star_def nc_result_def
      geojson_result_def csv_result_def demo_lib_def)

lemma demo_run: "load_data (dir_fs demo_listing) demo_lib new_dashboard = Inr demo_loaded"
  by (simp add: demo_loaded_def load_data_def dir_fs_def new_dashboard_def demo_listing_def glob_def
      fnmatch_star_def load_nc_def load_geojson_def load_csv_def log_call_def store_def
      stem_def demo_lib_def)

lemma demo_rerun:
  "load_data (dir_fs demo_listing) demo_lib demo_loaded =
     Inr (demo_loaded\<lparr>calls := calls demo_loaded @ calls demo_loaded\<rparr>)"
  by (simp add: demo_loaded_def load_data_def dir_fs_def demo_listing_def glob_def
      fnmatch_star_def load_nc_def load_geojson_def load_csv_def log_call_def store_def
      stem_def demo_lib_def)


section \<open>The claims\<close>

text \<open>
  \<^bold>\<open>C1.\<close> A file of the data directory with a recognized extension that fails to parse
  (for \<^verbatim>\<open>.nc\<close>: both readers raise) adds no entry for its stem, and \<^verbatim>\<open>load_data\<close> returns
  normally. Any entry found under that stem was stored by another file with the same stem
  that did parse; when no other file has the stem, the key is absent.
\<close>

theorem unparsable_file_adds_no_entry:
  assumes "fs (data_dir self) = Some ns" and "f \<in> set ns" and "recognized f"
    and "file_result L f = None"
  shows "\<exists>self'. load_data fs L self = Inr self' \<and>
           (\<forall>v. map_of (datasets self') (stem f) = Some v \<longrightarrow>
                (\<exists>g\<in>set ns. g \<noteq> f \<and> stem g = stem f \<and> file_result L g = Some v)) \<and>
           ((\<forall>g\<in>set ns. g \<noteq> f \<longrightarrow> stem g \<noteq> stem f) \<longrightarrow>
                map_of (datasets self') (stem f) = None)"
proof -
  obtain self' where run: "load_data fs L self = Inr self'"
    using load_data_returns by blast
  have prov: "\<exists>g\<in>set ns. g \<noteq> f \<and> stem g = stem f \<and> file_result L g = Some v"
    if "map_of (datasets self') (stem f) = Some v" for v
  proof -
    from load_data_provenance [OF assms(1) run that]
    obtain g where g: "g \<in> set ns" "stem g = stem f" "file_result L g = Some v" by blast
    from g(3) assms(4) have "g \<noteq> f" by auto
    with g show ?thesis by blast
  qed
  then have "(\<forall>g\<in>set ns. g \<noteq> f \<longrightarrow> stem g \<noteq> stem f) \<longrightarrow>
      map_of (datasets self') (stem f) = None"
    by (cases "map_of (datasets self') (stem f)") blast+
  with run prov show ?thesis by blast
qed

theorem unparsable_file_adds_no_entry_witness:
  "dir_fs demo_listing (data_dir (new_dashboard :: nat dashboard)) = Some demo_listing \<and>
   ''broken.nc'' \<in> set demo_listing \<and> recognized ''broken.nc'' \<and>
   file_result demo_lib ''broken.nc'' = None \<and>
   (\<exists>self'. load_data (dir_fs demo_listing) demo_lib new_dashboard = Inr self' \<and>
      map_of (datasets self') ''broken'' = None)"
proof -
  have dir: "dir_fs demo_listing (data_dir (new_dashboard :: nat dashboard)) = Some demo_listing"
    by (simp add: dir_fs_def new_dashboard_def)
  have mem: "''broken.nc'' \<in> set demo_listing" by (simp add: demo_listing_def)
  have rec: "recognized ''broken.nc''" by (simp add: recognized_def fnmatch_star_def)
  have res: "file_result demo_lib ''broken.nc'' = None"
    using demo_results by (simp add: demo_listing_def)
  have st: "stem ''broken.nc'' = ''broken''" by (simp add: stem_def)
  have alone: "\<forall>g\<in>set demo_listing. g \<noteq> ''broken.nc'' \<longrightarrow> stem g \<noteq> stem ''broken.nc''"
    by (simp add: demo_listing_def stem_def)
  from unparsable_file_adds_no_entry
      [where fs = "dir_fs demo_listing" and self = "new_dashboard :: nat dashboard"
         and L = demo_lib and f = "''broken.nc''" and ns = demo_listing]
    alone st dir mem rec res
  show ?thesis by auto
qed

text \<open>
  \<^bold>\<open>C2.\<close> When the data directory does not exist, or holds no name ending in \<^verbatim>\<open>.nc\<close>,
  \<^verbatim>\<open>.geojson\<close> or \<^verbatim>\<open>.csv\<close>, \<^verbatim>\<open>load_data\<close> returns normally with the empty dictionary.
\<close>

theorem load_data_no_recognized_files:
  assumes "fs (data_dir self) = None \<or>
           (\<exists>ns. fs (data_dir self) = Some ns \<and> (\<forall>n\<in>set ns. \<not> recognized n))"
  shows "\<exists>self'. load_data fs L self = Inr self' \<and> datasets self' = []"
  using assms
proof
  assume "fs (data_dir self) = None"
  then show ?thesis by (simp add: load_data_eq)
next
  assume "\<exists>ns. fs (data_dir self) = Some ns \<and> (\<forall>n\<in>set ns. \<not> recognized n)"
  then obtain ns where dir: "fs (data_dir self) = Some ns"
    and none: "\<forall>n\<in>set ns. \<not> recognized n" by blast
  from none have "glob ''.nc'' ns = []" "glob ''.geojson'' ns = []" "glob ''.csv'' ns = []"
    by (auto simp: recognized_def intro!: glob_empty)
  with dir show ?thesis by (simp add: load_data_eq)
qed

theorem load_data_no_recognized_files_witness:
  "dir_fs [] (data_dir (new_dashboard\<lparr>data_dir := ''elsewhere''\<rparr> :: nat dashboard)) = None \<and>
   (\<exists>self'. load_data (dir_fs []) demo_lib (new_dashboard\<lparr>data_dir := ''elsewhere''\<rparr>) = Inr self' \<and>
      datasets self' = []) \<and>
   dir_fs [''notes.txt'', ''README''] (data_dir (new_dashboard :: nat dashboard))
     = Some [''notes.txt'', ''README''] \<and>
   \<not> recognized ''notes.txt'' \<and> \<not> recognized ''README'' \<and>
   (\<exists>self'. load_data (dir_fs [''notes.txt'', ''README'']) demo_lib new_dashboard = Inr self' \<and>
      datasets self' = [])"
proof -
  have a: "dir_fs [] (data_dir (new_dashboard\<lparr>data_dir := ''elsewhere''\<rparr> :: nat dashboard)) = None"
    by (simp add: dir_fs_def)
  have b: "dir_fs [''notes.txt'', ''README''] (data_dir (new_dashboard :: nat dashboard))
     = Some [''notes.txt'', ''README'']"
    by (simp add: dir_fs_def new_dashboard_def)
  have c: "\<not> recognized ''notes.txt''" "\<not> recognized ''README''"
    by (simp_all add: recognized_def fnmatch_star_def)
  from b c have d: "\<exists>ns. dir_fs [''notes.txt'', ''README''] (data_dir (new_dashboard :: nat dashboard)) = Some ns
      \<and> (\<forall>n\<in>set ns. \<not> recognized n)"
    by simp
  from load_data_no_recognized_files
      [where fs = "dir_fs []" and self = "new_dashboard\<lparr>data_dir := ''elsewhere''\<rparr> :: nat dashboard"
         and L = demo_lib]
    load_data_no_recognized_files
      [where fs = "dir_fs [''notes.txt'', ''README'']" and self = "new_dashboard :: nat dashboard"
         and L = demo_lib]
    a b c d
  show ?thesis by blast
qed

text \<open>
  \<^bold>\<open>C3.\<close> For a \<^verbatim>\<open>.nc\<close> file the reader calls are \<^verbatim>\<open>open_dataset\<close> first and
  \<^verbatim>\<open>open_dataarray\<close> second, the second only when the first raised; when both raise the
  file adds no entry and \<^verbatim>\<open>load_data\<close> still returns normally.
\<close>

theorem nc_dataset_then_dataarray:
  assumes "fs (data_dir self) = Some ns" and "distinct ns" and "f \<in> set ns"
    and "fnmatch_star ''.nc'' f"
  shows "\<exists>self' new. load_data fs L self = Inr self' \<and> calls self' = calls self @ new \<and>
           filter (\<lambda>c. snd c = f) new =
             (if isl (open_dataset L f) then [(OpenDataset, f), (OpenDataArray, f)]
              else [(OpenDataset, f)]) \<and>
           (isl (open_dataset L f) \<and> isl (open_dataarray L f) \<longrightarrow>
              (\<forall>v. map_of (datasets self') (stem f) = Some v \<longrightarrow>
                 (\<exists>g\<in>set ns. g \<noteq> f \<and> stem g = stem f \<and> file_result L g = Some v)))"
proof -
  obtain self' where run: "load_data fs L self = Inr self'"
    using load_data_returns by blast
  define new where "new = concat (map (nc_calls L) (glob ''.nc'' ns))
      @ map (Pair ReadFile) (glob ''.geojson'' ns) @ map (Pair ReadCsv) (glob ''.csv'' ns)"
  have calls: "calls self' = calls self @ new"
    using run assms(1) by (auto simp: load_data_eq new_def)
  have f_nc: "f \<in> set (glob ''.nc'' ns)" using assms(3,4) by (simp add: set_glob)
  have f_geo: "f \<notin> set (glob ''.geojson'' ns)"
    using assms(4) nc_not_geojson by (auto simp: set_glob)
  have f_csv: "f \<notin> set (glob ''.csv'' ns)"
    using assms(4) nc_not_csv by (auto simp: set_glob)
  have "filter (\<lambda>c. snd c = f) (concat (map (nc_calls L) (glob ''.nc'' ns))) = nc_calls L f"
    using distinct_glob [OF assms(2)] f_nc nc_calls_snd by (rule filter_calls)
  then have order: "filter (\<lambda>c. snd c = f) new = nc_calls L f"
    by (simp add: new_def filter_other_group [OF f_geo] filter_other_group [OF f_csv])
  have shape: "nc_calls L f =
      (if isl (open_dataset L f) then [(OpenDataset, f), (OpenDataArray, f)]
       else [(OpenDataset, f)])"
    by (cases "open_dataset L f") (simp_all add: nc_calls_def)
  have skipped: "\<exists>g\<in>set ns. g \<noteq> f \<and> stem g = stem f \<and> file_result L g = Some v"
    if fail: "isl (open_dataset L f) \<and> isl (open_dataarray L f)"
      and look: "map_of (datasets self') (stem f) = Some v" for v
  proof -
    from fail have "nc_result L f = None"
      by (cases "open_dataset L f"; cases "open_dataarray L f") (simp_all add: nc_result_def)
    with assms(4) have none: "file_result L f = None" by (simp add: file_result_nc)
    from load_data_provenance [OF assms(1) run look]
    obtain g where g: "g \<in> set ns" "stem g = stem f" "file_result L g = Some v" by blast
    from g(3) none have "g \<noteq> f" by auto
    with g show ?thesis by blast
  qed
  from run calls order shape skipped show ?thesis by (intro exI conjI) (simp_all, blast)
qed

theorem nc_dataset_then_dataarray_witness:
  "dir_fs demo_listing (data_dir (new_dashboard :: nat dashboard)) = Some demo_listing \<and>
   distinct demo_listing \<and> ''broken.nc'' \<in> set demo_listing \<and>
   fnmatch_star ''.nc'' ''broken.nc'' \<and>
   isl (open_dataset demo_lib ''broken.nc'') \<and> isl (open_dataarray demo_lib ''broken.nc'') \<and>
   (\<exists>self' new. load_data (dir_fs demo_listing) demo_lib new_dashboard = Inr self' \<and>
      calls self' = calls (new_dashboard :: nat dashboard) @ new \<and>
      filter (\<lambda>c. snd c = ''broken.nc'') new
        = [(OpenDataset, ''broken.nc''), (OpenDataArray, ''broken.nc'')])"
proof -
  have dir: "dir_fs demo_listing (data_dir (new_dashboard :: nat dashboard)) = Some demo_listing"
    by (simp add: dir_fs_def new_dashboard_def)
  have dist: "distinct demo_listing" by (simp add: demo_listing_def)
  have mem: "''broken.nc'' \<in> set demo_listing" by (simp add: demo_listing_def)
  have nc: "fnmatch_star ''.nc'' ''broken.nc''" by (simp add: fnmatch_star_def)
  have fail: "isl (open_dataset demo_lib ''broken.nc'')" "isl (open_dataarray demo_lib ''broken.nc'')"
    by (simp_all add: demo_lib_def)
  from nc_dataset_then_dataarray
      [where fs = "dir_fs demo_listing" and self = "new_dashboard :: nat dashboard"
         and L = demo_lib and f = "''broken.nc''" and ns = demo_listing, OF dir dist mem nc]
  obtain self' new where
    "load_data (dir_fs demo_listing) demo_lib new_dashboard = Inr self'"
    "calls self' = calls (new_dashboard :: nat dashboard) @ new"
    "filter (\<lambda>c. snd c = ''broken.nc'') new =
       (if isl (open_dataset demo_lib ''broken.nc'')
        then [(OpenDataset, ''broken.nc''), (OpenDataArray, ''broken.nc'')]
        else [(OpenDataset, ''broken.nc'')])"
    by blast
  with fail dir dist mem nc show ?thesis by auto
qed

text \<open>
  \<^bold>\<open>C4.\<close> The reader calls of a load are those of the \<^verbatim>\<open>.nc\<close> files, then those of the
  \<^verbatim>\<open>.geojson\<close> files, then those of the \<^verbatim>\<open>.csv\<close> files. The entry under a key is
  therefore the last \<^verbatim>\<open>.csv\<close> file with that stem that parses; failing that the last such
  \<^verbatim>\<open>.geojson\<close> file; failing that the last such \<^verbatim>\<open>.nc\<close> file. A table that parses owns its
  stem, and a vector file that parses owns its stem unless a table with that stem parses.
\<close>

theorem extension_groups_in_order:
  assumes "fs (data_dir self) = Some ns"
  shows "\<exists>self'. load_data fs L self = Inr self' \<and>
           calls self' =
             calls self @ concat (map (nc_calls L) (glob ''.nc'' ns))
               @ map (Pair ReadFile) (glob ''.geojson'' ns)
               @ map (Pair ReadCsv) (glob ''.csv'' ns) \<and>
           (\<forall>k. map_of (datasets self') k =
              (case last_loaded (csv_result L) (glob ''.csv'' ns) k of
                 Some v \<Rightarrow> Some v
               | None \<Rightarrow>
                   (case last_loaded (geojson_result L) (glob ''.geojson'' ns) k of
                      Some v \<Rightarrow> Some v
                    | None \<Rightarrow> last_loaded (nc_result L) (glob ''.nc'' ns) k))) \<and>
           (\<forall>c\<in>set ns. fnmatch_star ''.csv'' c \<and> csv_result L c \<noteq> None \<longrightarrow>
              (\<exists>v. map_of (datasets self') (stem c) = Some v \<and> is_dataframe v)) \<and>
           (\<forall>g\<in>set ns. fnmatch_star ''.geojson'' g \<and> geojson_result L g \<noteq> None \<and>
                (\<forall>c\<in>set ns. fnmatch_star ''.csv'' c \<and> stem c = stem g \<longrightarrow> csv_result L c = None) \<longrightarrow>
              (\<exists>v. map_of (datasets self') (stem g) = Some v \<and> is_geodataframe v))"
proof -
  obtain self' where run: "load_data fs L self = Inr self'"
    using load_data_returns by blast
  note look = load_data_lookup [OF assms run]
  have order: "calls self' =
      calls self @ concat (map (nc_calls L) (glob ''.nc'' ns))
        @ map (Pair ReadFile) (glob ''.geojson'' ns) @ map (Pair ReadCsv) (glob ''.csv'' ns)"
    using run assms by (auto simp: load_data_eq)
  have csv_val: "is_dataframe v" if "last_loaded (csv_result L) fs' k = Some v" for fs' k v
  proof -
    from last_loaded_SomeD [OF that] obtain f where "csv_result L f = Some v" by blast
    then show ?thesis by (auto simp: csv_result_def split: sum.splits)
  qed
  have geo_val: "is_geodataframe v" if "last_loaded (geojson_result L) fs' k = Some v" for fs' k v
  proof -
    from last_loaded_SomeD [OF that] obtain f where "geojson_result L f = Some v" by blast
    then show ?thesis by (auto simp: geojson_result_def split: sum.splits)
  qed
  have tabular: "\<exists>v. map_of (datasets self') (stem c) = Some v \<and> is_dataframe v"
    if c: "c \<in> set ns" "fnmatch_star ''.csv'' c" "csv_result L c \<noteq> None" for c
  proof -
    from c have "last_loaded (csv_result L) (glob ''.csv'' ns) (stem c) \<noteq> None"
      by (auto simp: last_loaded_None_iff set_glob)
    then obtain v where v: "last_loaded (csv_result L) (glob ''.csv'' ns) (stem c) = Some v"
      by blast
    with look [of "stem c"] csv_val [OF v] show ?thesis by simp
  qed
  have vector: "\<exists>v. map_of (datasets self') (stem g) = Some v \<and> is_geodataframe v"
    if g: "g \<in> set ns" "fnmatch_star ''.geojson'' g" "geojson_result L g \<noteq> None"
      and nocsv: "\<forall>c\<in>set ns. fnmatch_star ''.csv'' c \<and> stem c = stem g \<longrightarrow> csv_result L c = None"
    for g
  proof -
    from nocsv have none: "last_loaded (csv_result L) (glob ''.csv'' ns) (stem g) = None"
      by (auto simp: last_loaded_None_iff set_glob)
    from g have "last_loaded (geojson_result L) (glob ''.geojson'' ns) (stem g) \<noteq> None"
      by (auto simp: last_loaded_None_iff set_glob)
    then obtain v where v: "last_loaded (geojson_result L) (glob ''.geojson'' ns) (stem g) = Some v"
      by blast
    with look [of "stem g"] none geo_val [OF v] show ?thesis by simp
  qed
  show ?thesis
  proof (intro exI conjI)
    show "load_data fs L self = Inr self'" by (rule run)
    show "calls self' =
      calls self @ concat (map (nc_calls L) (glob ''.nc'' ns))
        @ map (Pair ReadFile) (glob ''.geojson'' ns) @ map (Pair ReadCsv) (glob ''.csv'' ns)"
      by (rule order)
    show "\<forall>k. map_of (datasets self') k =
              (case last_loaded (csv_result L) (glob ''.csv'' ns) k of
                 Some v \<Rightarrow> Some v
               | None \<Rightarrow>
                   (case last_loaded (geojson_result L) (glob ''.geojson'' ns) k of
                      Some v \<Rightarrow> Some v
                    | None \<Rightarrow> last_loaded (nc_result L) (glob ''.nc'' ns) k))"
      using look by blast
    show "\<forall>c\<in>set ns. fnmatch_star ''.csv'' c \<and> csv_result L c \<noteq> None \<longrightarrow>
              (\<exists>v. map_of (datasets self') (stem c) = Some v \<and> is_dataframe v)"
      using tabular by blast
    show "\<forall>g\<in>set ns. fnmatch_star ''.geojson'' g \<and> geojson_result L g \<noteq> None \<and>
                (\<forall>c\<in>set ns. fnmatch_star ''.csv'' c \<and> stem c = stem g \<longrightarrow> csv_result L c = None) \<longrightarrow>
              (\<exists>v. map_of (datasets self') (stem g) = Some v \<and> is_geodataframe v)"
      using vector by blast
  qed
qed

theorem extension_groups_in_order_witness:
  "dir_fs demo_listing (data_dir (new_dashboard :: nat dashboard)) = Some demo_listing \<and>
   ''overfishing_risk_index.nc'' \<in> set demo_listing \<and>
   nc_result demo_lib ''overfishing_risk_index.nc'' = Some (DataArray 2) \<and>
   ''overfishing_risk_index.csv'' \<in> set demo_listing \<and>
   fnmatch_star ''.csv'' ''overfishing_risk_index.csv'' \<and>
   csv_result demo_lib ''overfishing_risk_index.csv'' = Some (DataFrame 5) \<and>
   (\<exists>self'. load_data (dir_fs demo_listing) demo_lib new_dashboard = Inr self' \<and>
      calls self' = calls demo_loaded \<and>
      map_of (datasets self') ''overfishing_risk_index'' = Some (DataFrame 5) \<and>
      is_dataframe (DataFrame (5::nat)))"
proof -
  have dir: "dir_fs demo_listing (data_dir (new_dashboard :: nat dashboard)) = Some demo_listing"
    by (simp add: dir_fs_def new_dashboard_def)
  have mem: "''overfishing_risk_index.nc'' \<in> set demo_listing"
    "''overfishing_risk_index.csv'' \<in> set demo_listing"
    by (simp_all add: demo_listing_def)
  have ext: "fnmatch_star ''.csv'' ''overfishing_risk_index.csv''"
    by (simp add: fnmatch_star_def)
  have res: "nc_result demo_lib ''overfishing_risk_index.nc'' = Some (DataArray 2)"
    "csv_result demo_lib ''overfishing_risk_index.csv'' = Some (DataFrame 5)"
    by (simp_all add: nc_result_def csv_result_def demo_lib_def)
  have st: "stem ''overfishing_risk_index.csv'' = ''overfishing_risk_index''"
    by (simp add: stem_def)
  from extension_groups_in_order
      [where fs = "dir_fs demo_listing" and self = "new_dashboard :: nat dashboard"
         and L = demo_lib and ns = demo_listing, OF dir]
  obtain self' where run: "load_data (dir_fs demo_listing) demo_lib new_dashboard = Inr self'"
    and tab: "\<forall>c\<in>set demo_listing. fnmatch_star ''.csv'' c \<and> csv_result demo_lib c \<noteq> None \<longrightarrow>
              (\<exists>v. map_of (datasets self') (stem c) = Some v \<and> is_dataframe v)"
    by (elim exE conjE)
  from run have s: "self' = demo_loaded" unfolding demo_run by simp
  from tab mem(2) ext res(2) st
  obtain v where "map_of (datasets self') ''overfishing_risk_index'' = Some v" "is_dataframe v"
    by force
  then have "map_of (datasets self') ''overfishing_risk_index'' = Some (DataFrame 5)"
    unfolding s by (simp add: demo_loaded_def)
  with run dir mem ext res show ?thesis unfolding s by simp
qed




text \<open>
  \<^bold>\<open>C6.\<close> Every entry of the registry is the result of a reader on a file of the
  directory with that stem: it is of exactly one of the four variants, the one (for
  \<^verbatim>\<open>.nc\<close>: one of the two) that belongs to the file's extension.
\<close>

theorem registry_values_are_reader_results:
  assumes "load_data fs L self = Inr self'" and "(k, v) \<in> set (datasets self')"
  shows "\<exists>ns f. fs (data_dir self) = Some ns \<and> f \<in> set ns \<and> stem f = k \<and>
           file_result L f = Some v \<and>
           length (filter id (variants v)) = 1 \<and>
           (if fnmatch_star ''.nc'' f then is_dataset v \<or> is_dataarray v
            else if fnmatch_star ''.geojson'' f then is_geodataframe v
            else fnmatch_star ''.csv'' f \<and> is_dataframe v)"
proof -
  have "datasets self' \<noteq> []" using assms(2) by auto
  then obtain ns where dir: "fs (data_dir self) = Some ns"
    using assms(1) by (cases "fs (data_dir self)") (auto simp: load_data_eq)
  from load_data_distinct [OF assms(1)] assms(2)
  have look: "map_of (datasets self') k = Some v" by simp
  from load_data_provenance [OF dir assms(1) look]
  obtain f where f: "f \<in> set ns" "stem f = k" "file_result L f = Some v" by blast
  have one: "length (filter id (variants v)) = 1"
    by (cases v) (simp_all add: variants_def)
  have kind: "if fnmatch_star ''.nc'' f then is_dataset v \<or> is_dataarray v
            else if fnmatch_star ''.geojson'' f then is_geodataframe v
            else fnmatch_star ''.csv'' f \<and> is_dataframe v"
    using f(3)
    by (auto simp: file_result_def nc_result_def geojson_result_def csv_result_def
        split: if_splits sum.splits)
  from dir f one kind show ?thesis by blast
qed

theorem registry_values_are_reader_results_witness:
  "load_data (dir_fs demo_listing) demo_lib new_dashboard = Inr demo_loaded \<and>
   (''recommended_mpa_locations'', GeoDataFrame 3) \<in> set (datasets demo_loaded) \<and>
   (\<exists>f. f \<in> set demo_listing \<and> stem f = ''recommended_mpa_locations'' \<and>
      file_result demo_lib f = Some (GeoDataFrame 3) \<and>
      length (filter id (variants (GeoDataFrame (3::nat)))) = 1)"
proof -
  have mem: "(''recommended_mpa_locations'', GeoDataFrame 3) \<in> set (datasets demo_loaded)"
    by (simp add: demo_loaded_def)
  from registry_values_are_reader_results [OF demo_run mem]
  obtain ns f where "dir_fs demo_listing (data_dir (new_dashboard :: nat dashboard)) = Some ns"
    "f \<in> set ns" "stem f = ''recommended_mpa_locations''"
    "file_result demo_lib f = Some (GeoDataFrame 3)"
    "length (filter id (variants (GeoDataFrame (3::nat)))) = 1"
    by blast
  then show ?thesis using demo_run mem by (auto simp: dir_fs_def new_dashboard_def)
qed

text \<open>
  \<^bold>\<open>C7.\<close> Running \<^verbatim>\<open>load_data\<close> a second time on the same object, with the directory and
  the readers unchanged, gives the same keys, and under each key datasets with the same
  mean and the same quantiles.
\<close>

theorem load_data_twice:
  "\<exists>s1 s2. load_data fs L self = Inr s1 \<and> load_data fs L s1 = Inr s2 \<and>
     fst ` set (datasets s2) = fst ` set (datasets s1) \<and>
     (\<forall>k v1 v2 q. map_of (datasets s1) k = Some v1 \<and> map_of (datasets s2) k = Some v2 \<longrightarrow>
        float_mean L v1 = float_mean L v2 \<and> quantile L v1 q = quantile L v2 q)"
proof -
  obtain s1 where r1: "load_data fs L self = Inr s1"
    using load_data_returns by blast
  obtain s2 where r2: "load_data fs L s1 = Inr s2"
    using load_data_returns by blast
  have dd: "data_dir s1 = data_dir self" using r1 by (rule load_data_data_dir)
  have same: "datasets s2 = datasets s1"
    using r1 r2 dd by (cases "fs (data_dir self)") (auto simp: load_data_eq)
  with r1 r2 show ?thesis by auto
qed

theorem load_data_twice_witness:
  "load_data (dir_fs demo_listing) demo_lib new_dashboard = Inr demo_loaded \<and>
   (\<exists>s2. load_data (dir_fs demo_listing) demo_lib demo_loaded = Inr s2 \<and>
      fst ` set (datasets s2) = fst ` set (datasets demo_loaded) \<and>
      map_of (datasets demo_loaded) ''habitat_quality_index'' = Some (Dataset 1) \<and>
      map_of (datasets s2) ''habitat_quality_index'' = Some (Dataset 1) \<and>
      float_mean demo_lib (Dataset 1) = float_mean demo_lib (Dataset 1) \<and>
      quantile demo_lib (Dataset 1) (8 / 10) = quantile demo_lib (Dataset 1) (8 / 10))"
proof -
  from load_data_twice [of "dir_fs demo_listing" demo_lib "new_dashboard :: nat dashboard"]
  obtain s1 s2 where r1: "load_data (dir_fs demo_listing) demo_lib new_dashboard = Inr s1"
    and r2: "load_data (dir_fs demo_listing) demo_lib s1 = Inr s2"
    and keys: "fst ` set (datasets s2) = fst ` set (datasets s1)"
    by (elim exE conjE)
  from r1 have s1: "s1 = demo_loaded" unfolding demo_run by simp
  from r2 have s2: "s2 = demo_loaded\<lparr>calls := calls demo_loaded @ calls demo_loaded\<rparr>"
    unfolding s1 demo_rerun by simp
  have look1: "map_of (datasets demo_loaded) ''habitat_quality_index'' = Some (Dataset 1)"
    by (simp add: demo_loaded_def)
  have look2: "map_of (datasets s2) ''habitat_quality_index'' = Some (Dataset 1)"
    unfolding s2 by (simp add: demo_loaded_def)
  from r2 keys look1 look2 demo_run show ?thesis unfolding s1 by blast
qed









text \<open>The whole page for a dashboard whose registry is empty.\<close>

text \<open>
  An exception of \<^verbatim>\<open>float(risk_data.mean())\<close> is not caught in \<^verbatim>\<open>render_key_metrics\<close>: it
  leaves \<^verbatim>\<open>run\<close>.
\<close>

lemma float_error_escapes:
  assumes "map_of (datasets self) ''overfishing_risk_index'' = Some v"
    and "float_mean L v = Inl e"
  shows "risk_metric L self = Inl e \<and> render_key_metrics L self = Inl e \<and> run L self = Inl e"
  using assms by (simp add: risk_metric_def render_key_metrics_def run_def and_then_def)

lemma empty_page:
  "run demo_lib (new_dashboard :: nat dashboard) =
     Inr [Metric ''Risk Index'' ''Loading...'' [],
          Metric ''Habitat Quality'' ''N/A'' [],
          Metric ''Connectivity'' ''N/A'' [],
          MetricCard ''Illegal Activity Alerts'' ''check mark'' (ShownText ''0'') ''ALL CLEAR'',
          Info ''Risk data is being processed. Please run the processing pipeline first.'',
          Info ''Connectivity analysis in progress...'',
          Info ''Habitat analysis in progress...'',
          Success ''All Clear: No suspicious patterns detected in current period'',
          Info ''How the system works'',
          Info ''MPA optimization map loading...'',
          Info ''Socioeconomic analysis loading...'',
          Warning ''No processed data found. Run the processing pipeline first.'']"
  by (simp add: run_def render_key_metrics_def risk_metric_def habitat_metric_def
      connectivity_metric_def alerts_metric_def risk_tab_def create_risk_map_3d_def
      risk_status_def connectivity_tab_def create_connectivity_network_def
      create_habitat_quality_animation_def illegal_tab_def mpa_tab_def
      create_mpa_optimization_map_def socio_tab_def create_socioeconomic_impact_chart_def
      explorer_tab_def and_then_def chart_or_info_def new_dashboard_def)

end
